theory Spec2Isabelle
  imports Complex_Main
begin

section \<open>PVC Shrink Ray: the admission webhook of main.go\<close>

text \<open>
  The webhook reviews PersistentVolumeClaim admission requests and shrinks the storage
  request of a claim restored from a VolumeSnapshot back to the snapshot's RestoreSize.
  The two functions embedded here are \<open>reviewPVC\<close> (the decision) and
  \<open>handleMutate\<close> (the HTTP handler around it).

  Go \<open>[]byte\<close> and \<open>string\<close> are both \<open>string\<close> (a list of bytes). A Go \<open>error\<close> is
  the text \<open>err.Error()\<close> returns, carried on the left of a sum. A pointer that may be
  nil is an \<open>option\<close>. The \<open>klog\<close> calls write to the log only and are left out.
\<close>

type_synonym bytes = string

subsection \<open>Quantities (k8s.io/apimachinery/pkg/api/resource)\<close>

text \<open>
  A \<open>resource.Quantity\<close> is an exact decimal number together with the notation it is
  printed in. \<open>Cmp\<close> is the library's three-way comparison of the numbers: \<open>-1\<close>, \<open>0\<close> or
  \<open>1\<close>. The canonical text \<open>String()\<close> is a function of the library, taken as a
  parameter (\<open>Quantity_String\<close> below).
\<close>

datatype Format = DecimalExponent | BinarySI | DecimalSI

record Quantity =
  q_value :: rat
  q_format :: Format

definition Cmp :: "Quantity \<Rightarrow> Quantity \<Rightarrow> int" where
  "Cmp q y = (if q_value q < q_value y then - 1 else if q_value q = q_value y then 0 else 1)"

subsection \<open>The objects under review\<close>

record TypedLocalObjectReference =
  ds_APIGroup :: "string option"
  ds_Kind :: string
  ds_Name :: string

record TypedObjectReference =
  dsr_APIGroup :: "string option"
  dsr_Kind :: string
  dsr_Name :: string
  dsr_Namespace :: "string option"

text \<open>
  The fields of \<open>corev1.PersistentVolumeClaim\<close> that \<open>reviewPVC\<close> reads. \<open>pvc_Labels\<close> is
  \<open>None\<close> for a nil map; \<open>spec_Requests\<close> is \<open>pvc.Spec.Resources.Requests\<close>, where a nil
  map and an empty one answer every lookup alike.
\<close>

record PersistentVolumeClaim =
  pvc_Namespace :: string
  pvc_Name :: string
  pvc_Labels :: "(string \<rightharpoonup> string) option"
  spec_DataSource :: "TypedLocalObjectReference option"
  spec_DataSourceRef :: "TypedObjectReference option"
  spec_Requests :: "string \<rightharpoonup> Quantity"

record VolumeSnapshotStatus =
  RestoreSize :: "Quantity option"

record VolumeSnapshot =
  vs_Namespace :: string
  vs_Name :: string
  vs_Status :: "VolumeSnapshotStatus option"

subsection \<open>The admission envelope (k8s.io/api/admission/v1)\<close>

record GroupVersionKind =
  gvk_Group :: string
  gvk_Version :: string
  gvk_Kind :: string

record AdmissionRequest =
  req_UID :: string
  req_Kind :: GroupVersionKind
  req_Namespace :: string
  req_Name :: string
  req_Object_Raw :: bytes

record Status =
  Message :: string

record AdmissionResponse =
  resp_UID :: string
  Allowed :: bool
  Result :: "Status option"
  Patch :: "bytes option"
  PatchType :: "string option"

record AdmissionReview =
  rev_APIVersion :: string
  rev_Kind :: string
  Request :: "AdmissionRequest option"
  Response :: "AdmissionResponse option"

record patch =
  Op :: string
  Path :: string
  Value :: string

subsection \<open>Library functions and collaborators\<close>

text \<open>
  The functions of \<open>encoding/json\<close> and of the quantity library that the two functions
  call. Each fallible one returns the error text on the left.
\<close>

record Lib =
  json_Unmarshal_PVC :: "bytes \<Rightarrow> string + PersistentVolumeClaim"
  Quantity_String :: "Quantity \<Rightarrow> string"
  json_Marshal_patch :: "patch list \<Rightarrow> string + bytes"
  json_Unmarshal_AdmissionReview :: "bytes \<Rightarrow> string + AdmissionReview"
  json_Marshal_AdmissionReview :: "AdmissionReview \<Rightarrow> string + bytes"

text \<open>
  The snapshot client: \<open>client ns name\<close> is
  \<open>client.SnapshotV1().VolumeSnapshots(ns).Get(ctx, name, GetOptions{})\<close>.
\<close>

type_synonym Client = "string \<Rightarrow> string \<Rightarrow> string + VolumeSnapshot"

definition GroupName :: string where
  "GroupName = ''snapshot.storage.k8s.io''"

definition ResourceStorage :: string where
  "ResourceStorage = ''storage''"

definition PatchTypeJSONPatch :: string where
  "PatchTypeJSONPatch = ''JSONPatch''"

text \<open>Reading a Go map of strings: a missing key reads as the empty string.\<close>

definition map_index :: "(string \<rightharpoonup> string) \<Rightarrow> string \<Rightarrow> string" where
  "map_index m k = (case m k of None \<Rightarrow> '''' | Some v \<Rightarrow> v)"

text \<open>The Go zero value of \<open>AdmissionResponse\<close>: what a composite literal leaves unset.\<close>

definition zero_AdmissionResponse :: AdmissionResponse where
  "zero_AdmissionResponse =
     \<lparr>resp_UID = '''', Allowed = False, Result = None, Patch = None, PatchType = None\<rparr>"

subsection \<open>reviewPVC\<close>

text \<open>
  Lines 52 to 69 of main.go: the name and namespace of the snapshot the claim is restored
  from, \<open>('''', '''')\<close> at the start. The second test runs only while the name is still
  empty.
\<close>

definition resolveSnapshot :: "PersistentVolumeClaim \<Rightarrow> string \<times> string" where
  "resolveSnapshot pvc =
     (let (snapshotName, snapshotNamespace) =
            (case spec_DataSource pvc of
               None \<Rightarrow> ('''', '''')
             | Some ds \<Rightarrow>
                 if ds_Kind ds = ''VolumeSnapshot'' \<and> ds_APIGroup ds = Some GroupName
                 then (ds_Name ds, pvc_Namespace pvc)
                 else ('''', ''''))
      in if snapshotName = '''' then
           (case spec_DataSourceRef pvc of
              None \<Rightarrow> (snapshotName, snapshotNamespace)
            | Some r \<Rightarrow>
                if dsr_Kind r = ''VolumeSnapshot'' \<and> dsr_APIGroup r = Some GroupName
                then (dsr_Name r,
                      (case dsr_Namespace r of
                         None \<Rightarrow> pvc_Namespace pvc
                       | Some n \<Rightarrow> if n \<noteq> '''' then n else pvc_Namespace pvc))
                else (snapshotName, snapshotNamespace))
         else (snapshotName, snapshotNamespace))"

text \<open>
  \<open>reviewPVC\<close> returns the response together with the list of snapshot lookups it made,
  each a pair (namespace, name), in the order of the calls.
\<close>

definition reviewPVC ::
  "Lib \<Rightarrow> AdmissionRequest \<Rightarrow> Client \<Rightarrow> AdmissionResponse \<times> (string \<times> string) list" where
  "reviewPVC lib req client =
     (case json_Unmarshal_PVC lib (req_Object_Raw req) of
        Inl err \<Rightarrow>
          (zero_AdmissionResponse\<lparr>Allowed := True, Result := Some \<lparr>Message = err\<rparr>\<rparr>, [])
      | Inr pvc \<Rightarrow>
          if pvc_Labels pvc = None
             \<or> map_index (case pvc_Labels pvc of None \<Rightarrow> Map.empty | Some ls \<Rightarrow> ls)
                  ''cdi.kubevirt.io/applyStorageProfile'' \<noteq> ''true''
          then (zero_AdmissionResponse\<lparr>Allowed := True\<rparr>, [])
          else
            (let (snapshotName, snapshotNamespace) = resolveSnapshot pvc in
             if snapshotName = '''' then (zero_AdmissionResponse\<lparr>Allowed := True\<rparr>, [])
             else
               (let calls = [(snapshotNamespace, snapshotName)] in
                case client snapshotNamespace snapshotName of
                  Inl err \<Rightarrow>
                    (zero_AdmissionResponse\<lparr>Allowed := True, Result := Some \<lparr>Message = err\<rparr>\<rparr>,
                     calls)
                | Inr snapshot \<Rightarrow>
                    (let snapshotRestoreSize =
                           (case vs_Status snapshot of
                              None \<Rightarrow> None
                            | Some st \<Rightarrow> RestoreSize st)
                     in case snapshotRestoreSize of
                          None \<Rightarrow> (zero_AdmissionResponse\<lparr>Allowed := True\<rparr>, calls)
                        | Some restoreSize \<Rightarrow>
                            (case spec_Requests pvc ResourceStorage of
                               None \<Rightarrow> (zero_AdmissionResponse\<lparr>Allowed := True\<rparr>, calls)
                             | Some pvcSize \<Rightarrow>
                                 if Cmp pvcSize restoreSize > 0 then
                                   (case json_Marshal_patch lib
                                           [\<lparr>Op = ''replace'',
                                             Path = ''/spec/resources/requests/storage'',
                                             Value = Quantity_String lib restoreSize\<rparr>] of
                                      Inl err \<Rightarrow>
                                        (zero_AdmissionResponse
                                           \<lparr>Allowed := True, Result := Some \<lparr>Message = err\<rparr>\<rparr>,
                                         calls)
                                    | Inr patchBytes \<Rightarrow>
                                        (zero_AdmissionResponse
                                           \<lparr>Allowed := True, Patch := Some patchBytes,
                                            PatchType := Some PatchTypeJSONPatch\<rparr>,
                                         calls))
                                 else (zero_AdmissionResponse\<lparr>Allowed := True\<rparr>, calls))))))"

subsection \<open>The HTTP request and the response writer\<close>

text \<open>
  A request body delivers \<open>body_content\<close> and then ends: with end of file when
  \<open>body_readErr\<close> is \<open>None\<close>, with that error otherwise (the error is what the read
  after the last byte returns).
\<close>

record Body =
  body_content :: bytes
  body_readErr :: "string option"

record HttpRequest =
  Method :: string
  Header :: "string \<rightharpoonup> string list"
  ReqBody :: Body

text \<open>
  The response writer as \<open>httptest.ResponseRecorder\<close> keeps it: the status code (200
  until \<open>WriteHeader\<close> sets another, which is also what the server sends when a handler
  returns without writing), the headers and the bytes written. \<open>w_writeErr\<close> is the
  error every \<open>Write\<close> on this connection returns, if any.
\<close>

record ResponseWriter =
  Code :: nat
  w_Header :: "string \<rightharpoonup> string list"
  w_Body :: bytes
  w_writeErr :: "string option"

text \<open>What the handler did besides writing: the calls it made, in order.\<close>

datatype event = Invoked_reviewPVC | Get_VolumeSnapshot string string

definition MethodPost :: string where
  "MethodPost = ''POST''"

definition StatusMethodNotAllowed :: nat where
  "StatusMethodNotAllowed = 405"

definition StatusUnsupportedMediaType :: nat where
  "StatusUnsupportedMediaType = 415"

definition StatusBadRequest :: nat where
  "StatusBadRequest = 400"

text \<open>\<open>Header.Get\<close>: the first value stored under the key, the empty string without one.\<close>

definition Header_Get :: "(string \<rightharpoonup> string list) \<Rightarrow> string \<Rightarrow> string" where
  "Header_Get h k = (case h k of None \<Rightarrow> '''' | Some [] \<Rightarrow> '''' | Some (v # _) \<Rightarrow> v)"

text \<open>
  \<open>io.ReadAll(io.LimitReader(body, n))\<close>: the limited reader stops asking after \<open>n\<close>
  bytes and reports end of file itself, so whatever follows the first \<open>n\<close> bytes, more
  bytes or an error, is never seen.
\<close>

definition ReadAll_LimitReader :: "Body \<Rightarrow> nat \<Rightarrow> string + bytes" where
  "ReadAll_LimitReader b n =
     (if n \<le> length (body_content b) then Inr (take n (body_content b))
      else (case body_readErr b of
              None \<Rightarrow> Inr (body_content b)
            | Some err \<Rightarrow> Inl err))"

text \<open>\<open>w.Write\<close>: the new writer and the error.\<close>

definition Write :: "ResponseWriter \<Rightarrow> bytes \<Rightarrow> ResponseWriter \<times> string option" where
  "Write w b =
     (case w_writeErr w of
        Some err \<Rightarrow> (w, Some err)
      | None \<Rightarrow> (w\<lparr>w_Body := w_Body w @ b\<rparr>, None))"

text \<open>
  \<open>http.Error\<close>: a plain-text reply with the given status; the text is followed by a
  newline, and an error of the write is dropped.
\<close>

definition http_Error :: "ResponseWriter \<Rightarrow> string \<Rightarrow> nat \<Rightarrow> ResponseWriter" where
  "http_Error w msg code =
     fst (Write (w\<lparr>Code := code,
                   w_Header := (w_Header w)
                     (''Content-Type'' \<mapsto> [''text/plain; charset=utf-8''],
                      ''X-Content-Type-Options'' \<mapsto> [''nosniff''])\<rparr>)
                (msg @ [CHR 0x0A]))"

subsection \<open>writeAdmissionReviewResponse and handleMutate\<close>

definition writeAdmissionReviewResponse ::
  "Lib \<Rightarrow> ResponseWriter \<Rightarrow> AdmissionReview \<Rightarrow> ResponseWriter \<times> string option" where
  "writeAdmissionReviewResponse lib w review =
     (case json_Marshal_AdmissionReview lib review of
        Inl err \<Rightarrow> (w, Some err)
      | Inr resp \<Rightarrow>
          Write (w\<lparr>w_Header := (w_Header w)(''Content-Type'' \<mapsto> [''application/json''])\<rparr>) resp)"

text \<open>
  \<open>handleMutate\<close> returns the writer as the handler leaves it and the calls it made. The
  error of \<open>writeAdmissionReviewResponse\<close> is only logged.
\<close>

definition handleMutate ::
  "Lib \<Rightarrow> ResponseWriter \<Rightarrow> HttpRequest \<Rightarrow> Client \<Rightarrow> ResponseWriter \<times> event list" where
  "handleMutate lib w r client =
     (if Method r \<noteq> MethodPost then
        (http_Error w ''invalid request method'' StatusMethodNotAllowed, [])
      else if Header_Get (Header r) ''Content-Type'' \<noteq> ''application/json'' then
        (http_Error w ''invalid content type, expected application/json''
           StatusUnsupportedMediaType, [])
      else
        (case ReadAll_LimitReader (ReqBody r) (2 ^ 20) of
           Inl err \<Rightarrow> (http_Error w ''could not read request body'' StatusBadRequest, [])
         | Inr body \<Rightarrow>
             if length body = 0 then
               (http_Error w ''empty request body'' StatusBadRequest, [])
             else
               (case json_Unmarshal_AdmissionReview lib body of
                  Inl err \<Rightarrow>
                    (http_Error w (''failed to unmarshal admission review: '' @ err)
                       StatusBadRequest, [])
                | Inr admissionReview \<Rightarrow>
                    (case Request admissionReview of
                       None \<Rightarrow>
                         (http_Error w ''admission review request is missing''
                            StatusBadRequest, [])
                     | Some request \<Rightarrow>
                         if gvk_Group (req_Kind request) \<noteq> ''''
                            \<or> gvk_Kind (req_Kind request) \<noteq> ''PersistentVolumeClaim''
                         then
                           (fst (writeAdmissionReviewResponse lib w
                                   (admissionReview
                                      \<lparr>Response :=
                                         Some (zero_AdmissionResponse\<lparr>Allowed := True\<rparr>)\<rparr>)),
                            [])
                         else
                           (let (response, calls) = reviewPVC lib request client;
                                response = response\<lparr>resp_UID := req_UID request\<rparr>
                            in (fst (writeAdmissionReviewResponse lib w
                                       (admissionReview\<lparr>Response := Some response\<rparr>)),
                                Invoked_reviewPVC
                                  # map (\<lambda>(ns, name). Get_VolumeSnapshot ns name) calls))))))"

subsection \<open>Concrete inputs\<close>

text \<open>
  The inputs of main_test.go, used below to run the definitions: a snapshot
  \<open>test-ns/my-snapshot\<close> with restore size 20Gi, claims made by the helpers of the test
  file, and stand-ins for the library functions that are defined on exactly these inputs.
\<close>

definition qty_20Gi :: Quantity where
  "qty_20Gi = \<lparr>q_value = 21474836480, q_format = BinarySI\<rparr>"

definition qty_21Gi :: Quantity where
  "qty_21Gi = \<lparr>q_value = 22548578304, q_format = BinarySI\<rparr>"

definition trigger_labels :: "string \<rightharpoonup> string" where
  "trigger_labels = [''cdi.kubevirt.io/applyStorageProfile'' \<mapsto> ''true'']"

definition createPVCFromSnapshot ::
  "string \<Rightarrow> string \<Rightarrow> string \<Rightarrow> Quantity \<Rightarrow> PersistentVolumeClaim" where
  "createPVCFromSnapshot namespace pvcName snapshotName requestedSize =
     \<lparr>pvc_Namespace = namespace, pvc_Name = pvcName,
      pvc_Labels = Some trigger_labels,
      spec_DataSource =
        Some \<lparr>ds_APIGroup = Some ''snapshot.storage.k8s.io'', ds_Kind = ''VolumeSnapshot'',
              ds_Name = snapshotName\<rparr>,
      spec_DataSourceRef = None,
      spec_Requests = [''storage'' \<mapsto> requestedSize]\<rparr>"

definition createPVCFromSnapshotRef ::
  "string \<Rightarrow> string \<Rightarrow> string \<Rightarrow> string \<Rightarrow> Quantity \<Rightarrow> PersistentVolumeClaim" where
  "createPVCFromSnapshotRef pvcNamespace pvcName snapshotNamespace snapshotName requestedSize =
     \<lparr>pvc_Namespace = pvcNamespace, pvc_Name = pvcName,
      pvc_Labels = Some trigger_labels,
      spec_DataSource = None,
      spec_DataSourceRef =
        Some \<lparr>dsr_APIGroup = Some ''snapshot.storage.k8s.io'', dsr_Kind = ''VolumeSnapshot'',
              dsr_Name = snapshotName, dsr_Namespace = Some snapshotNamespace\<rparr>,
      spec_Requests = [''storage'' \<mapsto> requestedSize]\<rparr>"

definition createSnapshot :: "string \<Rightarrow> string \<Rightarrow> Quantity \<Rightarrow> VolumeSnapshot" where
  "createSnapshot namespace name restoreSize =
     \<lparr>vs_Namespace = namespace, vs_Name = name,
      vs_Status = Some \<lparr>RestoreSize = Some restoreSize\<rparr>\<rparr>"

text \<open>A client that holds the one snapshot \<open>test-ns/my-snapshot\<close>.\<close>

definition fake_client :: Client where
  "fake_client ns name =
     (if ns = ''test-ns'' \<and> name = ''my-snapshot''
      then Inr (createSnapshot ''test-ns'' ''my-snapshot'' qty_20Gi)
      else Inl ''not found'')"

text \<open>A client that holds the one snapshot \<open>snapshot-ns/my-snapshot\<close>.\<close>

definition fake_client_ref :: Client where
  "fake_client_ref ns name =
     (if ns = ''snapshot-ns'' \<and> name = ''my-snapshot''
      then Inr (createSnapshot ''snapshot-ns'' ''my-snapshot'' qty_20Gi)
      else Inl ''not found'')"

text \<open>Claims, named by the raw bytes the stand-in decoder maps to them.\<close>

definition pvc_oversized :: PersistentVolumeClaim where
  "pvc_oversized = createPVCFromSnapshot ''test-ns'' ''my-pvc'' ''my-snapshot'' qty_21Gi"

definition pvc_exact :: PersistentVolumeClaim where
  "pvc_exact = createPVCFromSnapshot ''test-ns'' ''my-pvc'' ''my-snapshot'' qty_20Gi"

definition pvc_unlabelled :: PersistentVolumeClaim where
  "pvc_unlabelled = pvc_oversized\<lparr>pvc_Labels := None\<rparr>"

definition pvc_wrong_label :: PersistentVolumeClaim where
  "pvc_wrong_label =
     pvc_oversized\<lparr>pvc_Labels := Some [''cdi.kubevirt.io/applyStorageProfile'' \<mapsto> ''True'']\<rparr>"

definition pvc_missing_snapshot :: PersistentVolumeClaim where
  "pvc_missing_snapshot = createPVCFromSnapshot ''test-ns'' ''my-pvc'' ''gone'' qty_21Gi"

definition pvc_no_source :: PersistentVolumeClaim where
  "pvc_no_source = pvc_oversized\<lparr>spec_DataSource := None\<rparr>"

definition pvc_wrong_kind :: PersistentVolumeClaim where
  "pvc_wrong_kind =
     pvc_oversized
       \<lparr>spec_DataSource :=
          Some \<lparr>ds_APIGroup = None, ds_Kind = ''PersistentVolumeClaim'', ds_Name = ''other-pvc''\<rparr>\<rparr>"

definition pvc_wrong_group :: PersistentVolumeClaim where
  "pvc_wrong_group =
     pvc_oversized
       \<lparr>spec_DataSource :=
          Some \<lparr>ds_APIGroup = Some ''snapshot.storage.k8s.io/v1'', ds_Kind = ''VolumeSnapshot'',
                ds_Name = ''my-snapshot''\<rparr>\<rparr>"

definition pvc_via_ref :: PersistentVolumeClaim where
  "pvc_via_ref =
     createPVCFromSnapshotRef ''pvc-ns'' ''my-pvc'' ''snapshot-ns'' ''my-snapshot'' qty_21Gi"

text \<open>
  A claim with both references, the first one matching in kind and group but with an
  empty name.
\<close>

definition pvc_empty_name :: PersistentVolumeClaim where
  "pvc_empty_name =
     pvc_via_ref
       \<lparr>spec_DataSource :=
          Some \<lparr>ds_APIGroup = Some ''snapshot.storage.k8s.io'', ds_Kind = ''VolumeSnapshot'',
                ds_Name = ''''\<rparr>\<rparr>"

text \<open>A claim with both references resolvable, naming different snapshots.\<close>

definition pvc_both :: PersistentVolumeClaim where
  "pvc_both = pvc_via_ref\<lparr>spec_DataSource := spec_DataSource pvc_oversized\<rparr>"

definition decode_pvc :: "bytes \<Rightarrow> string + PersistentVolumeClaim" where
  "decode_pvc raw =
     (if raw = ''oversized'' then Inr pvc_oversized
      else if raw = ''exact'' then Inr pvc_exact
      else if raw = ''unlabelled'' then Inr pvc_unlabelled
      else if raw = ''missing-snapshot'' then Inr pvc_missing_snapshot
      else if raw = ''no-source'' then Inr pvc_no_source
      else if raw = ''via-ref'' then Inr pvc_via_ref
      else if raw = ''empty-name'' then Inr pvc_empty_name
      else if raw = ''both'' then Inr pvc_both
      else if raw = ''wrong-label'' then Inr pvc_wrong_label
      else if raw = ''wrong-kind'' then Inr pvc_wrong_kind
      else if raw = ''wrong-group'' then Inr pvc_wrong_group
      else Inl ''unexpected end of JSON input'')"

definition createAdmissionRequest :: "bytes \<Rightarrow> AdmissionRequest" where
  "createAdmissionRequest rawPVC =
     \<lparr>req_UID = ''test-uid'',
      req_Kind = \<lparr>gvk_Group = '''', gvk_Version = ''v1'', gvk_Kind = ''PersistentVolumeClaim''\<rparr>,
      req_Namespace = ''test-ns'', req_Name = ''my-pvc'',
      req_Object_Raw = rawPVC\<rparr>"

definition review_pvc :: AdmissionReview where
  "review_pvc =
     \<lparr>rev_APIVersion = ''admission.k8s.io/v1'', rev_Kind = ''AdmissionReview'',
      Request = Some (createAdmissionRequest ''oversized''), Response = None\<rparr>"

text \<open>An envelope for another kind of object, and one without a request.\<close>

definition review_deployment :: AdmissionReview where
  "review_deployment =
     review_pvc
       \<lparr>Request :=
          Some ((createAdmissionRequest ''oversized'')
                  \<lparr>req_Kind :=
                     \<lparr>gvk_Group = ''apps'', gvk_Version = ''v1'', gvk_Kind = ''Deployment''\<rparr>\<rparr>)\<rparr>"

definition review_empty :: AdmissionReview where
  "review_empty = review_pvc\<lparr>Request := None\<rparr>"

definition decode_review :: "bytes \<Rightarrow> string + AdmissionReview" where
  "decode_review body =
     (if length body = 2 ^ 20 then Inr review_pvc
      else if body = ''review-pvc'' then Inr review_pvc
      else if body = ''review-deployment'' then Inr review_deployment
      else if body = ''review-empty'' then Inr review_empty
      else Inl ''invalid character'')"

text \<open>
  The stand-in encoders print the fields the statements below look at: a patch as its
  three fields, an envelope as the UID, the verdict and the patch of its response.
\<close>

definition encode_patch :: "patch list \<Rightarrow> string + bytes" where
  "encode_patch ps = Inr (concat (map (\<lambda>p. Op p @ '' '' @ Path p @ '' '' @ Value p @ '';'') ps))"

definition encode_review :: "AdmissionReview \<Rightarrow> string + bytes" where
  "encode_review review =
     (case Response review of
        None \<Rightarrow> Inr ''no response''
      | Some resp \<Rightarrow>
          Inr (''uid='' @ resp_UID resp
               @ (if Allowed resp then '' allowed'' else '' denied'')
               @ (case Patch resp of None \<Rightarrow> '''' | Some b \<Rightarrow> '' patch='' @ b)))"

definition quantity_text :: "Quantity \<Rightarrow> string" where
  "quantity_text q =
     (if q = qty_20Gi then ''20Gi'' else if q = qty_21Gi then ''21Gi'' else ''0'')"

definition fake_lib :: Lib where
  "fake_lib =
     \<lparr>json_Unmarshal_PVC = decode_pvc,
      Quantity_String = quantity_text,
      json_Marshal_patch = encode_patch,
      json_Unmarshal_AdmissionReview = decode_review,
      json_Marshal_AdmissionReview = encode_review\<rparr>"

text \<open>\<open>httptest.NewRecorder()\<close> and \<open>httptest.NewRequest\<close> with a JSON content type.\<close>

definition NewRecorder :: ResponseWriter where
  "NewRecorder = \<lparr>Code = 200, w_Header = Map.empty, w_Body = [], w_writeErr = None\<rparr>"

definition NewRequest :: "string \<Rightarrow> bytes \<Rightarrow> HttpRequest" where
  "NewRequest method body =
     \<lparr>Method = method,
      Header = [''Content-Type'' \<mapsto> [''application/json'']],
      ReqBody = \<lparr>body_content = body, body_readErr = None\<rparr>\<rparr>"

section \<open>Properties\<close>

lemmas input_defs =
  fake_lib_def decode_pvc_def decode_review_def encode_patch_def encode_review_def
  quantity_text_def fake_client_def fake_client_ref_def pvc_oversized_def pvc_exact_def
  pvc_unlabelled_def pvc_wrong_label_def pvc_wrong_kind_def pvc_wrong_group_def
  pvc_missing_snapshot_def pvc_no_source_def pvc_via_ref_def
  pvc_empty_name_def pvc_both_def createPVCFromSnapshot_def createPVCFromSnapshotRef_def
  createSnapshot_def createAdmissionRequest_def review_pvc_def review_deployment_def
  review_empty_def NewRecorder_def NewRequest_def qty_20Gi_def qty_21Gi_def
  trigger_labels_def

lemmas program_defs =
  reviewPVC_def resolveSnapshot_def handleMutate_def writeAdmissionReviewResponse_def
  http_Error_def Write_def ReadAll_LimitReader_def Header_Get_def map_index_def Cmp_def
  zero_AdmissionResponse_def GroupName_def ResourceStorage_def PatchTypeJSONPatch_def
  MethodPost_def StatusBadRequest_def StatusMethodNotAllowed_def
  StatusUnsupportedMediaType_def

subsection \<open>Helper facts\<close>

text \<open>The comparison is positive exactly when the first number is the larger one.\<close>

lemma Cmp_pos_iff: "0 < Cmp q y \<longleftrightarrow> q_value y < q_value q"
  by (auto simp: Cmp_def)

text \<open>The resolution reads the two references and the namespace only.\<close>

lemma resolveSnapshot_Requests_update:
  "resolveSnapshot (pvc\<lparr>spec_Requests := m\<rparr>) = resolveSnapshot pvc"
  by (simp add: resolveSnapshot_def cong: if_cong option.case_cong)

text \<open>
  What \<open>reviewPVC\<close> does once the claim is decoded, carries the trigger label and names a
  snapshot: one lookup, and the rest decided by its result.
\<close>

lemma reviewPVC_resolved:
  assumes "json_Unmarshal_PVC lib (req_Object_Raw req) = Inr pvc"
    and "pvc_Labels pvc = Some ls"
    and "ls ''cdi.kubevirt.io/applyStorageProfile'' = Some ''true''"
    and "resolveSnapshot pvc = (name, ns)"
    and "name \<noteq> ''''"
  shows "reviewPVC lib req client =
           (case client ns name of
              Inl err \<Rightarrow>
                (zero_AdmissionResponse\<lparr>Allowed := True, Result := Some \<lparr>Message = err\<rparr>\<rparr>,
                 [(ns, name)])
            | Inr snapshot \<Rightarrow>
                (case (case vs_Status snapshot of None \<Rightarrow> None | Some st \<Rightarrow> RestoreSize st) of
                   None \<Rightarrow> (zero_AdmissionResponse\<lparr>Allowed := True\<rparr>, [(ns, name)])
                 | Some restoreSize \<Rightarrow>
                     (case spec_Requests pvc ResourceStorage of
                        None \<Rightarrow> (zero_AdmissionResponse\<lparr>Allowed := True\<rparr>, [(ns, name)])
                      | Some pvcSize \<Rightarrow>
                          if q_value restoreSize < q_value pvcSize then
                            (case json_Marshal_patch lib
                                    [\<lparr>Op = ''replace'',
                                      Path = ''/spec/resources/requests/storage'',
                                      Value = Quantity_String lib restoreSize\<rparr>] of
                               Inl err \<Rightarrow>
                                 (zero_AdmissionResponse
                                    \<lparr>Allowed := True, Result := Some \<lparr>Message = err\<rparr>\<rparr>,
                                  [(ns, name)])
                             | Inr patchBytes \<Rightarrow>
                                 (zero_AdmissionResponse
                                    \<lparr>Allowed := True, Patch := Some patchBytes,
                                     PatchType := Some PatchTypeJSONPatch\<rparr>,
                                  [(ns, name)]))
                          else (zero_AdmissionResponse\<lparr>Allowed := True\<rparr>, [(ns, name)]))))"
  using assms
  by (simp add: reviewPVC_def map_index_def Cmp_pos_iff Let_def
           split: sum.splits option.splits)

text \<open>The transport checks passed and the body decoded to an envelope with a request.\<close>

lemma handleMutate_decoded:
  assumes "Method r = MethodPost"
    and "Header_Get (Header r) ''Content-Type'' = ''application/json''"
    and "ReadAll_LimitReader (ReqBody r) (2 ^ 20) = Inr body"
    and "body \<noteq> []"
    and "json_Unmarshal_AdmissionReview lib body = Inr review"
    and "Request review = Some request"
  shows "handleMutate lib w r client =
           (if gvk_Group (req_Kind request) \<noteq> ''''
               \<or> gvk_Kind (req_Kind request) \<noteq> ''PersistentVolumeClaim''
            then (fst (writeAdmissionReviewResponse lib w
                         (review\<lparr>Response := Some (zero_AdmissionResponse\<lparr>Allowed := True\<rparr>)\<rparr>)),
                  [])
            else (fst (writeAdmissionReviewResponse lib w
                         (review\<lparr>Response :=
                                   Some ((fst (reviewPVC lib request client))
                                           \<lparr>resp_UID := req_UID request\<rparr>)\<rparr>)),
                  Invoked_reviewPVC
                    # map (\<lambda>(ns, name). Get_VolumeSnapshot ns name)
                        (snd (reviewPVC lib request client))))"
  using assms by (simp add: handleMutate_def split: prod.splits)

lemma Code_http_Error: "Code (http_Error w msg code) = code"
  by (simp add: http_Error_def Write_def split: option.splits)

lemma Code_writeAdmissionReviewResponse:
  "Code (fst (writeAdmissionReviewResponse lib w review)) = Code w"
  by (simp add: writeAdmissionReviewResponse_def Write_def split: sum.splits option.splits)

subsection \<open>The decision\<close>

text \<open>
  C1. For a claim that decodes, carries the trigger label and names a snapshot that the
  lookup returns with restore size \<open>R\<close>, and that requests storage \<open>S\<close>: when \<open>S\<close> is
  larger than \<open>R\<close> as a number, the response is allowed and its patch is the encoding of
  the one-element list holding \<open>replace\<close>, the path of the storage request and the
  canonical text of \<open>R\<close> (json.Marshal of such a list returning its bytes); when \<open>S\<close> is
  at most \<open>R\<close> the response is allowed and has no patch. So a claim whose request has
  been set to a quantity equal to \<open>R\<close> gets no patch again.
\<close>

theorem reviewPVC_shrinks_oversized:
  assumes "json_Unmarshal_PVC lib (req_Object_Raw req) = Inr pvc"
    and "pvc_Labels pvc = Some ls"
    and "ls ''cdi.kubevirt.io/applyStorageProfile'' = Some ''true''"
    and "resolveSnapshot pvc = (name, ns)"
    and "name \<noteq> ''''"
    and "client ns name = Inr snapshot"
    and "vs_Status snapshot = Some st"
    and "RestoreSize st = Some R"
    and "spec_Requests pvc ResourceStorage = Some S"
  shows "(q_value R < q_value S \<longrightarrow>
            (\<forall>patchBytes.
               json_Marshal_patch lib
                 [\<lparr>Op = ''replace'', Path = ''/spec/resources/requests/storage'',
                   Value = Quantity_String lib R\<rparr>] = Inr patchBytes \<longrightarrow>
               reviewPVC lib req client =
                 (\<lparr>resp_UID = '''', Allowed = True, Result = None, Patch = Some patchBytes,
                   PatchType = Some PatchTypeJSONPatch\<rparr>,
                  [(ns, name)])))
       \<and> (q_value S \<le> q_value R \<longrightarrow>
            reviewPVC lib req client =
              (\<lparr>resp_UID = '''', Allowed = True, Result = None, Patch = None,
                PatchType = None\<rparr>,
               [(ns, name)]))
       \<and> (\<forall>(req' :: AdmissionRequest) S'.
            json_Unmarshal_PVC lib (req_Object_Raw req') =
              Inr (pvc\<lparr>spec_Requests := (spec_Requests pvc)(ResourceStorage \<mapsto> S')\<rparr>)
            \<and> q_value S' = q_value R \<longrightarrow>
            reviewPVC lib req' client =
              (\<lparr>resp_UID = '''', Allowed = True, Result = None, Patch = None,
                PatchType = None\<rparr>,
               [(ns, name)]))"
proof (intro conjI impI allI)
  fix patchBytes
  assume "q_value R < q_value S"
    and "json_Marshal_patch lib
           [\<lparr>Op = ''replace'', Path = ''/spec/resources/requests/storage'',
             Value = Quantity_String lib R\<rparr>] = Inr patchBytes"
  then show "reviewPVC lib req client =
      (\<lparr>resp_UID = '''', Allowed = True, Result = None, Patch = Some patchBytes,
        PatchType = Some PatchTypeJSONPatch\<rparr>, [(ns, name)])"
    using assms
    by (simp add: reviewPVC_resolved [where pvc = pvc and ls = ls] zero_AdmissionResponse_def)
next
  assume "q_value S \<le> q_value R"
  then show "reviewPVC lib req client =
      (\<lparr>resp_UID = '''', Allowed = True, Result = None, Patch = None, PatchType = None\<rparr>,
       [(ns, name)])"
    using assms
    by (simp add: reviewPVC_resolved [where pvc = pvc and ls = ls] zero_AdmissionResponse_def)
next
  fix req' :: AdmissionRequest and S'
  let ?pvc' = "pvc\<lparr>spec_Requests := (spec_Requests pvc)(ResourceStorage \<mapsto> S')\<rparr>"
  assume a: "json_Unmarshal_PVC lib (req_Object_Raw req') = Inr ?pvc' \<and> q_value S' = q_value R"
  have "resolveSnapshot ?pvc' = (name, ns)"
    using assms(4) by (simp add: resolveSnapshot_Requests_update)
  moreover have "pvc_Labels ?pvc' = Some ls"
    using assms(2) by simp
  ultimately show "reviewPVC lib req' client =
      (\<lparr>resp_UID = '''', Allowed = True, Result = None, Patch = None, PatchType = None\<rparr>,
       [(ns, name)])"
    using a assms(3,5,6,7,8)
    by (simp add: reviewPVC_resolved [where pvc = ?pvc' and ls = ls] zero_AdmissionResponse_def)
qed

theorem reviewPVC_shrinks_oversized_witness:
  "json_Unmarshal_PVC fake_lib (req_Object_Raw (createAdmissionRequest ''oversized''))
     = Inr pvc_oversized
   \<and> pvc_Labels pvc_oversized = Some trigger_labels
   \<and> trigger_labels ''cdi.kubevirt.io/applyStorageProfile'' = Some ''true''
   \<and> resolveSnapshot pvc_oversized = (''my-snapshot'', ''test-ns'')
   \<and> fake_client ''test-ns'' ''my-snapshot''
       = Inr (createSnapshot ''test-ns'' ''my-snapshot'' qty_20Gi)
   \<and> spec_Requests pvc_oversized ResourceStorage = Some qty_21Gi
   \<and> q_value qty_20Gi < q_value qty_21Gi
   \<and> reviewPVC fake_lib (createAdmissionRequest ''oversized'') fake_client =
       (\<lparr>resp_UID = '''', Allowed = True, Result = None,
         Patch = Some ''replace /spec/resources/requests/storage 20Gi;'',
         PatchType = Some ''JSONPatch''\<rparr>,
        [(''test-ns'', ''my-snapshot'')])
   \<and> reviewPVC fake_lib (createAdmissionRequest ''exact'') fake_client =
       (\<lparr>resp_UID = '''', Allowed = True, Result = None, Patch = None, PatchType = None\<rparr>,
        [(''test-ns'', ''my-snapshot'')])"
  using reviewPVC_shrinks_oversized
          [where lib = fake_lib and req = "createAdmissionRequest ''oversized''"
             and pvc = pvc_oversized and ls = trigger_labels
             and name = "''my-snapshot''" and ns = "''test-ns''" and client = fake_client
             and snapshot = "createSnapshot ''test-ns'' ''my-snapshot'' qty_20Gi"
             and st = "\<lparr>RestoreSize = Some qty_20Gi\<rparr>" and R = qty_20Gi and S = qty_21Gi]
  by (simp add: input_defs program_defs)

text \<open>
  C2. Every response of \<open>reviewPVC\<close> is allowed, on all of its branches. In
  \<open>handleMutate\<close>, a request that passes the transport checks and is for another kind
  than PersistentVolumeClaim is answered with the envelope whose response is allowed and
  nothing else; a request for a claim is answered with the response of \<open>reviewPVC\<close>,
  which is allowed.
\<close>

theorem never_denies:
  "Allowed (fst (reviewPVC lib req client))
   \<and> (Method r = MethodPost
      \<and> Header_Get (Header r) ''Content-Type'' = ''application/json''
      \<and> ReadAll_LimitReader (ReqBody r) (2 ^ 20) = Inr body
      \<and> body \<noteq> []
      \<and> json_Unmarshal_AdmissionReview lib body = Inr review
      \<and> Request review = Some request
      \<longrightarrow>
        (gvk_Group (req_Kind request) \<noteq> ''''
           \<or> gvk_Kind (req_Kind request) \<noteq> ''PersistentVolumeClaim''
         \<longrightarrow> handleMutate lib w r client =
               (fst (writeAdmissionReviewResponse lib w
                       (review\<lparr>Response :=
                                 Some \<lparr>resp_UID = '''', Allowed = True, Result = None,
                                       Patch = None, PatchType = None\<rparr>\<rparr>)),
                []))
        \<and> (gvk_Group (req_Kind request) = ''''
             \<and> gvk_Kind (req_Kind request) = ''PersistentVolumeClaim''
           \<longrightarrow> (\<exists>response calls.
                  Allowed response
                  \<and> handleMutate lib w r client =
                      (fst (writeAdmissionReviewResponse lib w
                              (review\<lparr>Response := Some response\<rparr>)),
                       calls))))"
proof (intro conjI impI)
  show "Allowed (fst (reviewPVC lib req client))"
    by (simp add: reviewPVC_def zero_AdmissionResponse_def Let_def
             split: sum.splits option.splits prod.splits)
next
  assume pre: "Method r = MethodPost
      \<and> Header_Get (Header r) ''Content-Type'' = ''application/json''
      \<and> ReadAll_LimitReader (ReqBody r) (2 ^ 20) = Inr body
      \<and> body \<noteq> []
      \<and> json_Unmarshal_AdmissionReview lib body = Inr review
      \<and> Request review = Some request"
  assume "gvk_Group (req_Kind request) \<noteq> ''''
           \<or> gvk_Kind (req_Kind request) \<noteq> ''PersistentVolumeClaim''"
  then show "handleMutate lib w r client =
               (fst (writeAdmissionReviewResponse lib w
                       (review\<lparr>Response :=
                                 Some \<lparr>resp_UID = '''', Allowed = True, Result = None,
                                       Patch = None, PatchType = None\<rparr>\<rparr>)),
                [])"
    using pre
    by (simp add: handleMutate_decoded [where body = body and review = review]
                  zero_AdmissionResponse_def)
next
  assume pre: "Method r = MethodPost
      \<and> Header_Get (Header r) ''Content-Type'' = ''application/json''
      \<and> ReadAll_LimitReader (ReqBody r) (2 ^ 20) = Inr body
      \<and> body \<noteq> []
      \<and> json_Unmarshal_AdmissionReview lib body = Inr review
      \<and> Request review = Some request"
  assume kind: "gvk_Group (req_Kind request) = ''''
             \<and> gvk_Kind (req_Kind request) = ''PersistentVolumeClaim''"
  let ?response = "(fst (reviewPVC lib request client))\<lparr>resp_UID := req_UID request\<rparr>"
  have "Allowed (fst (reviewPVC lib request client))"
    by (simp add: reviewPVC_def zero_AdmissionResponse_def Let_def
             split: sum.splits option.splits prod.splits)
  then have "Allowed ?response"
    by simp
  moreover have "handleMutate lib w r client =
      (fst (writeAdmissionReviewResponse lib w (review\<lparr>Response := Some ?response\<rparr>)),
       Invoked_reviewPVC
         # map (\<lambda>(ns, name). Get_VolumeSnapshot ns name) (snd (reviewPVC lib request client)))"
    using pre kind
    by (simp add: handleMutate_decoded [where body = body and review = review])
  ultimately show "\<exists>response calls.
                  Allowed response
                  \<and> handleMutate lib w r client =
                      (fst (writeAdmissionReviewResponse lib w
                              (review\<lparr>Response := Some response\<rparr>)),
                       calls)"
    by blast
qed

theorem never_denies_witness:
  "Method (NewRequest ''POST'' ''review-deployment'') = MethodPost
   \<and> Header_Get (Header (NewRequest ''POST'' ''review-deployment'')) ''Content-Type''
       = ''application/json''
   \<and> ReadAll_LimitReader (ReqBody (NewRequest ''POST'' ''review-deployment'')) (2 ^ 20)
       = Inr ''review-deployment''
   \<and> json_Unmarshal_AdmissionReview fake_lib ''review-deployment'' = Inr review_deployment
   \<and> map_option (gvk_Kind \<circ> req_Kind) (Request review_deployment) = Some ''Deployment''
   \<and> Allowed (fst (reviewPVC fake_lib (createAdmissionRequest ''oversized'') fake_client))
   \<and> handleMutate fake_lib NewRecorder (NewRequest ''POST'' ''review-deployment'') fake_client =
       (fst (writeAdmissionReviewResponse fake_lib NewRecorder
               (review_deployment
                  \<lparr>Response :=
                     Some \<lparr>resp_UID = '''', Allowed = True, Result = None, Patch = None,
                           PatchType = None\<rparr>\<rparr>)),
        [])"
  using never_denies
          [where lib = fake_lib and req = "createAdmissionRequest ''oversized''"
             and client = fake_client and r = "NewRequest ''POST'' ''review-deployment''"
             and body = "''review-deployment''" and review = review_deployment
             and request =
               "(createAdmissionRequest ''oversized'')
                  \<lparr>req_Kind :=
                     \<lparr>gvk_Group = ''apps'', gvk_Version = ''v1'', gvk_Kind = ''Deployment''\<rparr>\<rparr>"
             and w = NewRecorder]
  by (simp add: input_defs program_defs)

text \<open>
  C5. A claim that decodes and has no label map, or whose label map does not give the
  value \<open>true\<close> to \<open>cdi.kubevirt.io/applyStorageProfile\<close>, is allowed without a patch and
  without any snapshot lookup, whatever its data sources, its request and the snapshots
  are.
\<close>

theorem reviewPVC_skips_unlabelled:
  assumes "json_Unmarshal_PVC lib (req_Object_Raw req) = Inr pvc"
    and "pvc_Labels pvc = None
         \<or> (\<exists>ls. pvc_Labels pvc = Some ls
                \<and> ls ''cdi.kubevirt.io/applyStorageProfile'' \<noteq> Some ''true'')"
  shows "reviewPVC lib req client =
           (\<lparr>resp_UID = '''', Allowed = True, Result = None, Patch = None, PatchType = None\<rparr>,
            [])"
proof -
  have "pvc_Labels pvc = None
        \<or> map_index (case pvc_Labels pvc of None \<Rightarrow> Map.empty | Some ls \<Rightarrow> ls)
             ''cdi.kubevirt.io/applyStorageProfile'' \<noteq> ''true''"
    using assms(2) by (auto simp: map_index_def split: option.splits)
  then show ?thesis
    using assms(1) by (simp add: reviewPVC_def zero_AdmissionResponse_def)
qed

theorem reviewPVC_skips_unlabelled_witness:
  "json_Unmarshal_PVC fake_lib (req_Object_Raw (createAdmissionRequest ''unlabelled''))
     = Inr pvc_unlabelled
   \<and> pvc_Labels pvc_unlabelled = None
   \<and> reviewPVC fake_lib (createAdmissionRequest ''unlabelled'') fake_client =
       (\<lparr>resp_UID = '''', Allowed = True, Result = None, Patch = None, PatchType = None\<rparr>, [])
   \<and> json_Unmarshal_PVC fake_lib (req_Object_Raw (createAdmissionRequest ''wrong-label''))
     = Inr pvc_wrong_label
   \<and> map_option (\<lambda>ls. ls ''cdi.kubevirt.io/applyStorageProfile'') (pvc_Labels pvc_wrong_label)
     = Some (Some ''True'')
   \<and> reviewPVC fake_lib (createAdmissionRequest ''wrong-label'') fake_client =
       (\<lparr>resp_UID = '''', Allowed = True, Result = None, Patch = None, PatchType = None\<rparr>, [])"
  using reviewPVC_skips_unlabelled
          [where lib = fake_lib and req = "createAdmissionRequest ''unlabelled''"
             and pvc = pvc_unlabelled and client = fake_client]
        reviewPVC_skips_unlabelled
          [where lib = fake_lib and req = "createAdmissionRequest ''wrong-label''"
             and pvc = pvc_wrong_label and client = fake_client]
  by (simp add: input_defs program_defs)

text \<open>
  C6. When the raw bytes of the claim do not decode, and when the snapshot lookup returns
  an error, \<open>reviewPVC\<close> answers allowed, without a patch, with the error text as the
  message of the result.
\<close>

theorem reviewPVC_fails_open:
  "(json_Unmarshal_PVC lib (req_Object_Raw req) = Inl err \<longrightarrow>
      reviewPVC lib req client =
        (\<lparr>resp_UID = '''', Allowed = True, Result = Some \<lparr>Message = err\<rparr>, Patch = None,
          PatchType = None\<rparr>,
         []))
   \<and> (json_Unmarshal_PVC lib (req_Object_Raw req) = Inr pvc
      \<and> pvc_Labels pvc = Some ls
      \<and> ls ''cdi.kubevirt.io/applyStorageProfile'' = Some ''true''
      \<and> resolveSnapshot pvc = (name, ns)
      \<and> name \<noteq> ''''
      \<and> client ns name = Inl err \<longrightarrow>
      reviewPVC lib req client =
        (\<lparr>resp_UID = '''', Allowed = True, Result = Some \<lparr>Message = err\<rparr>, Patch = None,
          PatchType = None\<rparr>,
         [(ns, name)]))"
proof (intro conjI impI)
  assume "json_Unmarshal_PVC lib (req_Object_Raw req) = Inl err"
  then show "reviewPVC lib req client =
        (\<lparr>resp_UID = '''', Allowed = True, Result = Some \<lparr>Message = err\<rparr>, Patch = None,
          PatchType = None\<rparr>, [])"
    by (simp add: reviewPVC_def zero_AdmissionResponse_def)
next
  assume "json_Unmarshal_PVC lib (req_Object_Raw req) = Inr pvc
      \<and> pvc_Labels pvc = Some ls
      \<and> ls ''cdi.kubevirt.io/applyStorageProfile'' = Some ''true''
      \<and> resolveSnapshot pvc = (name, ns)
      \<and> name \<noteq> ''''
      \<and> client ns name = Inl err"
  then show "reviewPVC lib req client =
        (\<lparr>resp_UID = '''', Allowed = True, Result = Some \<lparr>Message = err\<rparr>, Patch = None,
          PatchType = None\<rparr>, [(ns, name)])"
    by (simp add: reviewPVC_resolved [where pvc = pvc and ls = ls] zero_AdmissionResponse_def)
qed

theorem reviewPVC_fails_open_witness:
  "json_Unmarshal_PVC fake_lib (req_Object_Raw (createAdmissionRequest ''{''))
     = Inl ''unexpected end of JSON input''
   \<and> reviewPVC fake_lib (createAdmissionRequest ''{'') fake_client =
       (\<lparr>resp_UID = '''', Allowed = True,
         Result = Some \<lparr>Message = ''unexpected end of JSON input''\<rparr>, Patch = None,
         PatchType = None\<rparr>,
        [])
   \<and> json_Unmarshal_PVC fake_lib (req_Object_Raw (createAdmissionRequest ''missing-snapshot''))
     = Inr pvc_missing_snapshot
   \<and> pvc_Labels pvc_missing_snapshot = Some trigger_labels
   \<and> resolveSnapshot pvc_missing_snapshot = (''gone'', ''test-ns'')
   \<and> fake_client ''test-ns'' ''gone'' = Inl ''not found''
   \<and> reviewPVC fake_lib (createAdmissionRequest ''missing-snapshot'') fake_client =
       (\<lparr>resp_UID = '''', Allowed = True, Result = Some \<lparr>Message = ''not found''\<rparr>,
         Patch = None, PatchType = None\<rparr>,
        [(''test-ns'', ''gone'')])"
  using reviewPVC_fails_open
          [where lib = fake_lib and req = "createAdmissionRequest ''{''"
             and err = "''unexpected end of JSON input''" and client = fake_client]
        reviewPVC_fails_open
          [where lib = fake_lib and req = "createAdmissionRequest ''missing-snapshot''"
             and err = "''not found''" and client = fake_client
             and pvc = pvc_missing_snapshot and ls = trigger_labels
             and name = "''gone''" and ns = "''test-ns''"]
  by (simp add: input_defs program_defs)

text \<open>
  C9. A claim that decodes and carries the trigger label, and whose two data-source
  fields are each absent, of another kind than VolumeSnapshot, or of an absent or other
  API group than the snapshot group, is allowed without a patch, and the snapshot client
  is not called.
\<close>

theorem reviewPVC_skips_unresolved:
  assumes "json_Unmarshal_PVC lib (req_Object_Raw req) = Inr pvc"
    and "pvc_Labels pvc = Some ls"
    and "ls ''cdi.kubevirt.io/applyStorageProfile'' = Some ''true''"
    and "spec_DataSource pvc = None
         \<or> (\<exists>ds. spec_DataSource pvc = Some ds
                \<and> (ds_Kind ds \<noteq> ''VolumeSnapshot'' \<or> ds_APIGroup ds \<noteq> Some GroupName))"
    and "spec_DataSourceRef pvc = None
         \<or> (\<exists>dsr. spec_DataSourceRef pvc = Some dsr
                \<and> (dsr_Kind dsr \<noteq> ''VolumeSnapshot'' \<or> dsr_APIGroup dsr \<noteq> Some GroupName))"
  shows "reviewPVC lib req client =
           (\<lparr>resp_UID = '''', Allowed = True, Result = None, Patch = None, PatchType = None\<rparr>,
            [])"
proof -
  have "resolveSnapshot pvc = ('''', '''')"
    using assms(4,5) by (auto simp: resolveSnapshot_def split: option.splits)
  then show ?thesis
    using assms(1,2,3) by (simp add: reviewPVC_def map_index_def zero_AdmissionResponse_def)
qed

theorem reviewPVC_skips_unresolved_witness:
  "json_Unmarshal_PVC fake_lib (req_Object_Raw (createAdmissionRequest ''no-source''))
     = Inr pvc_no_source
   \<and> pvc_Labels pvc_no_source = Some trigger_labels
   \<and> spec_DataSource pvc_no_source = None
   \<and> spec_DataSourceRef pvc_no_source = None
   \<and> reviewPVC fake_lib (createAdmissionRequest ''no-source'') fake_client =
       (\<lparr>resp_UID = '''', Allowed = True, Result = None, Patch = None, PatchType = None\<rparr>, [])
   \<and> map_option ds_Kind (spec_DataSource pvc_wrong_kind) = Some ''PersistentVolumeClaim''
   \<and> reviewPVC fake_lib (createAdmissionRequest ''wrong-kind'') fake_client =
       (\<lparr>resp_UID = '''', Allowed = True, Result = None, Patch = None, PatchType = None\<rparr>, [])
   \<and> map_option ds_APIGroup (spec_DataSource pvc_wrong_group)
       = Some (Some ''snapshot.storage.k8s.io/v1'')
   \<and> reviewPVC fake_lib (createAdmissionRequest ''wrong-group'') fake_client =
       (\<lparr>resp_UID = '''', Allowed = True, Result = None, Patch = None, PatchType = None\<rparr>, [])"
  using reviewPVC_skips_unresolved
          [where lib = fake_lib and req = "createAdmissionRequest ''no-source''"
             and pvc = pvc_no_source and ls = trigger_labels and client = fake_client]
        reviewPVC_skips_unresolved
          [where lib = fake_lib and req = "createAdmissionRequest ''wrong-kind''"
             and pvc = pvc_wrong_kind and ls = trigger_labels and client = fake_client]
        reviewPVC_skips_unresolved
          [where lib = fake_lib and req = "createAdmissionRequest ''wrong-group''"
             and pvc = pvc_wrong_group and ls = trigger_labels and client = fake_client]
  by (simp add: input_defs program_defs)

text \<open>
  C4, as stated, at a claim whose \<open>dataSource\<close> has the kind VolumeSnapshot, the snapshot
  group and the empty name, and whose \<open>dataSourceRef\<close> names \<open>my-snapshot\<close> in
  \<open>snapshot-ns\<close>: the name of the \<open>dataSource\<close> with the claim's namespace \<open>pvc-ns\<close> is
  not what is resolved; the \<open>dataSourceRef\<close> is, and it is what is looked up.
\<close>

theorem resolveSnapshot_empty_name_counterexample:
  "spec_DataSource pvc_empty_name =
     Some \<lparr>ds_APIGroup = Some GroupName, ds_Kind = ''VolumeSnapshot'', ds_Name = ''''\<rparr>
   \<and> pvc_Namespace pvc_empty_name = ''pvc-ns''
   \<and> resolveSnapshot pvc_empty_name \<noteq> ('''', ''pvc-ns'')
   \<and> resolveSnapshot pvc_empty_name = (''my-snapshot'', ''snapshot-ns'')
   \<and> snd (reviewPVC fake_lib (createAdmissionRequest ''empty-name'') fake_client_ref) =
       [(''snapshot-ns'', ''my-snapshot'')]"
  by (simp add: input_defs program_defs)

text \<open>
  C4, amended. If the \<open>dataSource\<close> has the kind VolumeSnapshot, the snapshot group and a
  name that is not empty, its name is resolved with the claim's own namespace, whatever
  the \<open>dataSourceRef\<close> is. Otherwise (the \<open>dataSource\<close> is absent, fails the kind and
  group test, or has the empty name), a \<open>dataSourceRef\<close> that passes the same test gives
  its name, with its own namespace when that is present and not empty and the claim's
  namespace if not. For a claim that decodes and carries the trigger label, a resolved
  name that is not empty is looked up once, in the resolved namespace.
\<close>

theorem resolveSnapshot_first_match_wins:
  "(spec_DataSource pvc = Some ds
      \<and> ds_Kind ds = ''VolumeSnapshot'' \<and> ds_APIGroup ds = Some GroupName
      \<and> ds_Name ds \<noteq> '''' \<longrightarrow>
      resolveSnapshot pvc = (ds_Name ds, pvc_Namespace pvc))
   \<and> ((spec_DataSource pvc = None
         \<or> (\<exists>d. spec_DataSource pvc = Some d
                \<and> (ds_Kind d \<noteq> ''VolumeSnapshot'' \<or> ds_APIGroup d \<noteq> Some GroupName
                     \<or> ds_Name d = '''')))
      \<and> spec_DataSourceRef pvc = Some dsr
      \<and> dsr_Kind dsr = ''VolumeSnapshot'' \<and> dsr_APIGroup dsr = Some GroupName \<longrightarrow>
      resolveSnapshot pvc =
        (dsr_Name dsr,
         (case dsr_Namespace dsr of
            None \<Rightarrow> pvc_Namespace pvc
          | Some n \<Rightarrow> if n = '''' then pvc_Namespace pvc else n)))
   \<and> (json_Unmarshal_PVC lib (req_Object_Raw req) = Inr pvc
      \<and> pvc_Labels pvc = Some ls
      \<and> ls ''cdi.kubevirt.io/applyStorageProfile'' = Some ''true''
      \<and> resolveSnapshot pvc = (name, ns)
      \<and> name \<noteq> '''' \<longrightarrow>
      snd (reviewPVC lib req client) = [(ns, name)])"
proof (intro conjI impI)
  assume "spec_DataSource pvc = Some ds
      \<and> ds_Kind ds = ''VolumeSnapshot'' \<and> ds_APIGroup ds = Some GroupName
      \<and> ds_Name ds \<noteq> ''''"
  then show "resolveSnapshot pvc = (ds_Name ds, pvc_Namespace pvc)"
    by (simp add: resolveSnapshot_def)
next
  assume "(spec_DataSource pvc = None
         \<or> (\<exists>d. spec_DataSource pvc = Some d
                \<and> (ds_Kind d \<noteq> ''VolumeSnapshot'' \<or> ds_APIGroup d \<noteq> Some GroupName
                     \<or> ds_Name d = '''')))
      \<and> spec_DataSourceRef pvc = Some dsr
      \<and> dsr_Kind dsr = ''VolumeSnapshot'' \<and> dsr_APIGroup dsr = Some GroupName"
  then show "resolveSnapshot pvc =
        (dsr_Name dsr,
         (case dsr_Namespace dsr of
            None \<Rightarrow> pvc_Namespace pvc
          | Some n \<Rightarrow> if n = '''' then pvc_Namespace pvc else n))"
    by (auto simp: resolveSnapshot_def split: option.splits)
next
  assume "json_Unmarshal_PVC lib (req_Object_Raw req) = Inr pvc
      \<and> pvc_Labels pvc = Some ls
      \<and> ls ''cdi.kubevirt.io/applyStorageProfile'' = Some ''true''
      \<and> resolveSnapshot pvc = (name, ns)
      \<and> name \<noteq> ''''"
  then show "snd (reviewPVC lib req client) = [(ns, name)]"
    by (simp add: reviewPVC_resolved [where pvc = pvc and ls = ls]
             split: sum.splits option.splits)
qed

theorem resolveSnapshot_first_match_wins_witness:
  "map_option ds_Name (spec_DataSource pvc_both) = Some ''my-snapshot''
   \<and> map_option dsr_Namespace (spec_DataSourceRef pvc_both) = Some (Some ''snapshot-ns'')
   \<and> pvc_Namespace pvc_both = ''pvc-ns''
   \<and> resolveSnapshot pvc_both = (''my-snapshot'', ''pvc-ns'')
   \<and> spec_DataSource pvc_via_ref = None
   \<and> map_option dsr_Namespace (spec_DataSourceRef pvc_via_ref) = Some (Some ''snapshot-ns'')
   \<and> pvc_Namespace pvc_via_ref = ''pvc-ns''
   \<and> resolveSnapshot pvc_via_ref = (''my-snapshot'', ''snapshot-ns'')
   \<and> json_Unmarshal_PVC fake_lib (req_Object_Raw (createAdmissionRequest ''via-ref''))
       = Inr pvc_via_ref
   \<and> pvc_Labels pvc_via_ref = Some trigger_labels
   \<and> snd (reviewPVC fake_lib (createAdmissionRequest ''via-ref'') fake_client_ref) =
       [(''snapshot-ns'', ''my-snapshot'')]"
  using resolveSnapshot_first_match_wins
          [where pvc = pvc_both
             and ds = "\<lparr>ds_APIGroup = Some ''snapshot.storage.k8s.io'',
                        ds_Kind = ''VolumeSnapshot'', ds_Name = ''my-snapshot''\<rparr>"]
        resolveSnapshot_first_match_wins
          [where pvc = pvc_via_ref
             and dsr = "\<lparr>dsr_APIGroup = Some ''snapshot.storage.k8s.io'',
                         dsr_Kind = ''VolumeSnapshot'', dsr_Name = ''my-snapshot'',
                         dsr_Namespace = Some ''snapshot-ns''\<rparr>"
             and lib = fake_lib and req = "createAdmissionRequest ''via-ref''"
             and ls = trigger_labels and name = "''my-snapshot''" and ns = "''snapshot-ns''"
             and client = fake_client_ref]
  by (simp add: input_defs program_defs)

subsection \<open>The handler\<close>

text \<open>
  C3, at an envelope for a Deployment with request UID \<open>test-uid\<close>: the handler writes
  the envelope whose response has the empty UID. On the same envelope for a
  PersistentVolumeClaim the response has the UID of the request.
\<close>

theorem blank_UID_on_unsupported_kind:
  "json_Unmarshal_AdmissionReview fake_lib ''review-deployment'' = Inr review_deployment
   \<and> map_option req_UID (Request review_deployment) = Some ''test-uid''
   \<and> map_option req_Kind (Request review_deployment) =
       Some \<lparr>gvk_Group = ''apps'', gvk_Version = ''v1'', gvk_Kind = ''Deployment''\<rparr>
   \<and> handleMutate fake_lib NewRecorder (NewRequest ''POST'' ''review-deployment'') fake_client =
       (fst (writeAdmissionReviewResponse fake_lib NewRecorder
               (review_deployment
                  \<lparr>Response :=
                     Some \<lparr>resp_UID = '''', Allowed = True, Result = None, Patch = None,
                           PatchType = None\<rparr>\<rparr>)),
        [])
   \<and> w_Body (fst (handleMutate fake_lib NewRecorder (NewRequest ''POST'' ''review-deployment'')
                    fake_client)) = ''uid= allowed''
   \<and> map_option req_UID (Request review_pvc) = Some ''test-uid''
   \<and> w_Body (fst (handleMutate fake_lib NewRecorder (NewRequest ''POST'' ''review-pvc'')
                    fake_client)) =
       ''uid=test-uid allowed patch=replace /spec/resources/requests/storage 20Gi;''"
  by (simp add: input_defs program_defs)

text \<open>So the reply to the Deployment envelope does not carry the UID of its request.\<close>

theorem blank_UID_on_unsupported_kind_witness:
  "w_Body (fst (handleMutate fake_lib NewRecorder (NewRequest ''POST'' ''review-deployment'')
                  fake_client)) \<noteq> ''uid=test-uid allowed''"
proof -
  have "w_Body (fst (handleMutate fake_lib NewRecorder
                       (NewRequest ''POST'' ''review-deployment'') fake_client))
        = ''uid= allowed''"
    using blank_UID_on_unsupported_kind by blast
  then show ?thesis
    by simp
qed

text \<open>
  C7. The transport checks run in this order and each one ends the request with its
  status, before \<open>reviewPVC\<close> or the snapshot client is called: another method than POST
  gives 405; then another content type than \<open>application/json\<close> gives 415; then a body
  that cannot be read, is empty, does not decode, or decodes to an envelope without a
  request gives 400.
\<close>

theorem handleMutate_transport_errors:
  "(Method r \<noteq> ''POST'' \<longrightarrow>
      handleMutate lib w r client = (http_Error w ''invalid request method'' 405, []))
   \<and> (Method r = ''POST''
      \<and> Header_Get (Header r) ''Content-Type'' \<noteq> ''application/json'' \<longrightarrow>
      handleMutate lib w r client =
        (http_Error w ''invalid content type, expected application/json'' 415, []))
   \<and> (Method r = ''POST''
      \<and> Header_Get (Header r) ''Content-Type'' = ''application/json''
      \<and> ReadAll_LimitReader (ReqBody r) (2 ^ 20) = Inl err \<longrightarrow>
      handleMutate lib w r client = (http_Error w ''could not read request body'' 400, []))
   \<and> (Method r = ''POST''
      \<and> Header_Get (Header r) ''Content-Type'' = ''application/json''
      \<and> ReadAll_LimitReader (ReqBody r) (2 ^ 20) = Inr [] \<longrightarrow>
      handleMutate lib w r client = (http_Error w ''empty request body'' 400, []))
   \<and> (Method r = ''POST''
      \<and> Header_Get (Header r) ''Content-Type'' = ''application/json''
      \<and> ReadAll_LimitReader (ReqBody r) (2 ^ 20) = Inr body \<and> body \<noteq> []
      \<and> json_Unmarshal_AdmissionReview lib body = Inl err \<longrightarrow>
      handleMutate lib w r client =
        (http_Error w (''failed to unmarshal admission review: '' @ err) 400, []))
   \<and> (Method r = ''POST''
      \<and> Header_Get (Header r) ''Content-Type'' = ''application/json''
      \<and> ReadAll_LimitReader (ReqBody r) (2 ^ 20) = Inr body \<and> body \<noteq> []
      \<and> json_Unmarshal_AdmissionReview lib body = Inr review
      \<and> Request review = None \<longrightarrow>
      handleMutate lib w r client =
        (http_Error w ''admission review request is missing'' 400, []))
   \<and> Code (http_Error w msg code) = code"
proof (intro conjI impI)
  show "Code (http_Error w msg code) = code"
    by (rule Code_http_Error)
qed (simp_all add: handleMutate_def MethodPost_def StatusMethodNotAllowed_def
       StatusUnsupportedMediaType_def StatusBadRequest_def)

theorem handleMutate_transport_errors_witness:
  "handleMutate fake_lib NewRecorder (NewRequest ''GET'' ''review-pvc'') fake_client =
     (http_Error NewRecorder ''invalid request method'' 405, [])
   \<and> handleMutate fake_lib NewRecorder
       ((NewRequest ''GET'' ''review-pvc'')\<lparr>Header := Map.empty\<rparr>) fake_client =
     (http_Error NewRecorder ''invalid request method'' 405, [])
   \<and> handleMutate fake_lib NewRecorder
       ((NewRequest ''POST'' ''review-pvc'')\<lparr>Header := [''Content-Type'' \<mapsto> [''text/plain'']]\<rparr>)
       fake_client =
     (http_Error NewRecorder ''invalid content type, expected application/json'' 415, [])
   \<and> handleMutate fake_lib NewRecorder
       ((NewRequest ''POST'' ''review-pvc'')
          \<lparr>ReqBody := \<lparr>body_content = ''review'', body_readErr = Some ''unexpected EOF''\<rparr>\<rparr>)
       fake_client =
     (http_Error NewRecorder ''could not read request body'' 400, [])
   \<and> handleMutate fake_lib NewRecorder (NewRequest ''POST'' '''') fake_client =
     (http_Error NewRecorder ''empty request body'' 400, [])
   \<and> handleMutate fake_lib NewRecorder (NewRequest ''POST'' ''{'') fake_client =
     (http_Error NewRecorder ''failed to unmarshal admission review: invalid character'' 400,
      [])
   \<and> handleMutate fake_lib NewRecorder (NewRequest ''POST'' ''review-empty'') fake_client =
     (http_Error NewRecorder ''admission review request is missing'' 400, [])
   \<and> Code (http_Error NewRecorder ''empty request body'' 400) = 400"
  using handleMutate_transport_errors
          [where lib = fake_lib and w = NewRecorder and client = fake_client
             and r = "NewRequest ''GET'' ''review-pvc''"]
        handleMutate_transport_errors
          [where lib = fake_lib and w = NewRecorder and client = fake_client
             and r = "(NewRequest ''GET'' ''review-pvc'')\<lparr>Header := Map.empty\<rparr>"]
        handleMutate_transport_errors
          [where lib = fake_lib and w = NewRecorder and client = fake_client
             and r = "(NewRequest ''POST'' ''review-pvc'')
                        \<lparr>Header := [''Content-Type'' \<mapsto> [''text/plain'']]\<rparr>"]
        handleMutate_transport_errors
          [where lib = fake_lib and w = NewRecorder and client = fake_client
             and r = "(NewRequest ''POST'' ''review-pvc'')
                        \<lparr>ReqBody := \<lparr>body_content = ''review'',
                                     body_readErr = Some ''unexpected EOF''\<rparr>\<rparr>"
             and err = "''unexpected EOF''"]
        handleMutate_transport_errors
          [where lib = fake_lib and w = NewRecorder and client = fake_client
             and r = "NewRequest ''POST'' ''''"]
        handleMutate_transport_errors
          [where lib = fake_lib and w = NewRecorder and client = fake_client
             and r = "NewRequest ''POST'' ''{''" and body = "''{''"
             and err = "''invalid character''"]
        handleMutate_transport_errors
          [where lib = fake_lib and w = NewRecorder and client = fake_client
             and r = "NewRequest ''POST'' ''review-empty''" and body = "''review-empty''"
             and review = review_empty and msg = "''empty request body''" and code = 400]
  by (simp add: input_defs program_defs)

text \<open>
  C8. A request that passes the transport checks and whose kind is not the empty group
  with the kind PersistentVolumeClaim is answered by writing the envelope with the
  response allowed and without a patch; the status is the one the writer started with
  (200), never one set by an error reply; \<open>reviewPVC\<close> and the snapshot client are not
  called. When the envelope encodes and the write succeeds, the body is the encoded
  envelope, sent as \<open>application/json\<close>.
\<close>

theorem handleMutate_unsupported_kind:
  assumes "Method r = ''POST''"
    and "Header_Get (Header r) ''Content-Type'' = ''application/json''"
    and "ReadAll_LimitReader (ReqBody r) (2 ^ 20) = Inr body"
    and "body \<noteq> []"
    and "json_Unmarshal_AdmissionReview lib body = Inr review"
    and "Request review = Some request"
    and "gvk_Group (req_Kind request) \<noteq> ''''
         \<or> gvk_Kind (req_Kind request) \<noteq> ''PersistentVolumeClaim''"
  shows "handleMutate lib w r client =
           (fst (writeAdmissionReviewResponse lib w
                   (review\<lparr>Response :=
                             Some \<lparr>resp_UID = '''', Allowed = True, Result = None,
                                   Patch = None, PatchType = None\<rparr>\<rparr>)),
            [])
         \<and> (Code w = 200 \<longrightarrow> Code (fst (handleMutate lib w r client)) = 200)
         \<and> (\<forall>resp.
              json_Marshal_AdmissionReview lib
                (review\<lparr>Response :=
                          Some \<lparr>resp_UID = '''', Allowed = True, Result = None,
                                Patch = None, PatchType = None\<rparr>\<rparr>) = Inr resp
              \<and> w_writeErr w = None \<longrightarrow>
              fst (handleMutate lib w r client) =
                w\<lparr>w_Header := (w_Header w)(''Content-Type'' \<mapsto> [''application/json'']),
                  w_Body := w_Body w @ resp\<rparr>)"
proof -
  have eq: "handleMutate lib w r client =
           (fst (writeAdmissionReviewResponse lib w
                   (review\<lparr>Response :=
                             Some \<lparr>resp_UID = '''', Allowed = True, Result = None,
                                   Patch = None, PatchType = None\<rparr>\<rparr>)),
            [])"
    using assms
    by (simp add: handleMutate_decoded [where body = body and review = review]
                  MethodPost_def zero_AdmissionResponse_def)
  have code: "Code (fst (handleMutate lib w r client)) = Code w"
    by (simp add: eq Code_writeAdmissionReviewResponse)
  have written: "fst (handleMutate lib w r client) =
                w\<lparr>w_Header := (w_Header w)(''Content-Type'' \<mapsto> [''application/json'']),
                  w_Body := w_Body w @ resp\<rparr>"
    if "json_Marshal_AdmissionReview lib
                (review\<lparr>Response :=
                          Some \<lparr>resp_UID = '''', Allowed = True, Result = None,
                                Patch = None, PatchType = None\<rparr>\<rparr>) = Inr resp
              \<and> w_writeErr w = None" for resp
    using that by (simp add: eq writeAdmissionReviewResponse_def Write_def)
  show ?thesis
    using eq code written by simp
qed

theorem handleMutate_unsupported_kind_witness:
  "Method (NewRequest ''POST'' ''review-deployment'') = ''POST''
   \<and> Header_Get (Header (NewRequest ''POST'' ''review-deployment'')) ''Content-Type''
       = ''application/json''
   \<and> ReadAll_LimitReader (ReqBody (NewRequest ''POST'' ''review-deployment'')) (2 ^ 20)
       = Inr ''review-deployment''
   \<and> json_Unmarshal_AdmissionReview fake_lib ''review-deployment'' = Inr review_deployment
   \<and> map_option (gvk_Group \<circ> req_Kind) (Request review_deployment) = Some ''apps''
   \<and> Code NewRecorder = 200
   \<and> w_writeErr NewRecorder = None
   \<and> handleMutate fake_lib NewRecorder (NewRequest ''POST'' ''review-deployment'') fake_client =
       (\<lparr>Code = 200, w_Header = [''Content-Type'' \<mapsto> [''application/json'']],
         w_Body = ''uid= allowed'', w_writeErr = None\<rparr>,
        [])"
  using handleMutate_unsupported_kind
          [where lib = fake_lib and w = NewRecorder and client = fake_client
             and r = "NewRequest ''POST'' ''review-deployment''"
             and body = "''review-deployment''" and review = review_deployment
             and request =
               "(createAdmissionRequest ''oversized'')
                  \<lparr>req_Kind :=
                     \<lparr>gvk_Group = ''apps'', gvk_Version = ''v1'', gvk_Kind = ''Deployment''\<rparr>\<rparr>"]
  by (simp add: input_defs program_defs)

text \<open>
  C10. The body is read through a reader limited to \<open>2 ^ 20\<close> bytes. A body longer than
  that is not refused: the handler does exactly what it does on the first \<open>2 ^ 20\<close>
  bytes alone. On a POST with the JSON content type: if these bytes decode to an envelope
  with a request, the status stays the one the writer started with; if they do not, the
  reply is an error reply with status 400 and nothing is called.
\<close>

theorem handleMutate_truncates_body:
  assumes "2 ^ 20 < length (body_content (ReqBody r))"
  shows "ReadAll_LimitReader (ReqBody r) (2 ^ 20) =
           Inr (take (2 ^ 20) (body_content (ReqBody r)))
         \<and> handleMutate lib w r client =
             handleMutate lib w
               (r\<lparr>ReqBody := \<lparr>body_content = take (2 ^ 20) (body_content (ReqBody r)),
                              body_readErr = None\<rparr>\<rparr>)
               client
         \<and> (Method r = ''POST''
            \<and> Header_Get (Header r) ''Content-Type'' = ''application/json'' \<longrightarrow>
            (if \<exists>review request.
                  json_Unmarshal_AdmissionReview lib
                    (take (2 ^ 20) (body_content (ReqBody r))) = Inr review
                  \<and> Request review = Some request
             then Code (fst (handleMutate lib w r client)) = Code w
             else Code (fst (handleMutate lib w r client)) = 400
                  \<and> snd (handleMutate lib w r client) = []))"
proof (intro conjI impI)
  let ?prefix = "take (2 ^ 20) (body_content (ReqBody r))"
  show read: "ReadAll_LimitReader (ReqBody r) (2 ^ 20) = Inr ?prefix"
    using assms by (simp add: ReadAll_LimitReader_def)
  have len: "length ?prefix = 2 ^ 20"
    using assms by simp
  have read': "ReadAll_LimitReader \<lparr>body_content = ?prefix, body_readErr = None\<rparr> (2 ^ 20)
               = Inr ?prefix"
    using len by (simp add: ReadAll_LimitReader_def)
  show "handleMutate lib w r client =
          handleMutate lib w (r\<lparr>ReqBody := \<lparr>body_content = ?prefix, body_readErr = None\<rparr>\<rparr>)
            client"
    unfolding handleMutate_def using read read' by simp
  assume pre: "Method r = ''POST''
            \<and> Header_Get (Header r) ''Content-Type'' = ''application/json''"
  have nonempty: "?prefix \<noteq> []"
    using len by auto
  show "if \<exists>review request.
              json_Unmarshal_AdmissionReview lib ?prefix = Inr review
              \<and> Request review = Some request
        then Code (fst (handleMutate lib w r client)) = Code w
        else Code (fst (handleMutate lib w r client)) = 400
             \<and> snd (handleMutate lib w r client) = []"
  proof (cases "json_Unmarshal_AdmissionReview lib ?prefix")
    case (Inl err)
    then show ?thesis
      using pre read nonempty
      by (simp add: handleMutate_def MethodPost_def StatusBadRequest_def Code_http_Error)
  next
    case (Inr review)
    show ?thesis
    proof (cases "Request review")
      case None
      then show ?thesis
        using pre read nonempty Inr
        by (simp add: handleMutate_def MethodPost_def StatusBadRequest_def Code_http_Error)
    next
      case (Some request)
      have "Code (fst (handleMutate lib w r client)) = Code w"
        using pre read nonempty Inr Some
        by (simp add: handleMutate_decoded [where body = ?prefix and review = review]
                      MethodPost_def Code_writeAdmissionReviewResponse)
      then show ?thesis
        using Inr Some by simp
    qed
  qed
qed

theorem handleMutate_truncates_body_witness:
  "2 ^ 20 < length (body_content (ReqBody (NewRequest ''POST''
                                              (replicate (2 ^ 20) CHR ''x'' @ ''garbage''))))
   \<and> ReadAll_LimitReader (ReqBody (NewRequest ''POST''
                                     (replicate (2 ^ 20) CHR ''x'' @ ''garbage''))) (2 ^ 20)
       = Inr (replicate (2 ^ 20) CHR ''x'')
   \<and> handleMutate fake_lib NewRecorder
       (NewRequest ''POST'' (replicate (2 ^ 20) CHR ''x'' @ ''garbage'')) fake_client =
     handleMutate fake_lib NewRecorder
       (NewRequest ''POST'' (replicate (2 ^ 20) CHR ''x'')) fake_client
   \<and> Code (fst (handleMutate fake_lib NewRecorder
                  (NewRequest ''POST'' (replicate (2 ^ 20) CHR ''x'' @ ''garbage''))
                  fake_client)) = 200"
  using handleMutate_truncates_body
          [where r = "NewRequest ''POST'' (replicate (2 ^ 20) CHR ''x'' @ ''garbage'')"
             and lib = fake_lib and w = NewRecorder and client = fake_client]
  by (simp add: input_defs program_defs)

end
